theory Spec2Isabelle
  imports Main "HOL-Library.Word"
begin

unbundle bit_operations_syntax

section \<open>IEEE single-precision values, as far as the device code uses them\<close>

text \<open>
  The C++ type \<open>float\<close> is a 32-bit IEEE 754 binary32 value. \<open>Device\<close> only stores,
  copies and compares floats (no arithmetic, no rounding), so a float is modelled by its
  bit pattern, and the comparison operators decode it: bit 31 is the sign, bits 30..23 the
  biased exponent, bits 22..0 the fraction.

  \<open>fval\<close> is the numeric value of a non-NaN pattern in units of \<open>2^-149\<close> (the smallest
  subnormal), which makes it an integer: a subnormal (exponent 0) is its fraction, a normal
  number is \<open>(2^23 + fraction) * 2^(exponent - 1)\<close>. An infinity (exponent 255,
  fraction 0) gets the value the same formula gives, \<open>2^277\<close>, which lies above every
  finite float, so on non-NaN patterns the order of \<open>fval\<close> is the IEEE order, with
  \<open>-0.0\<close> and \<open>+0.0\<close> equal. Every comparison with a NaN is false.
\<close>

type_synonym float32 = "32 word"

definition fsign :: "float32 \<Rightarrow> bool" where
  "fsign w = bit w 31"

definition fexp :: "float32 \<Rightarrow> nat" where
  "fexp w = unat (drop_bit 23 w AND 0xFF)"

definition fmant :: "float32 \<Rightarrow> nat" where
  "fmant w = unat (w AND 0x7FFFFF)"

definition is_nan :: "float32 \<Rightarrow> bool" where
  "is_nan w = (fexp w = 255 \<and> fmant w \<noteq> 0)"

definition is_finite :: "float32 \<Rightarrow> bool" where
  "is_finite w = (fexp w \<noteq> 255)"

definition fmag :: "float32 \<Rightarrow> int" where
  "fmag w = (if fexp w = 0 then int (fmant w)
             else (2 ^ 23 + int (fmant w)) * 2 ^ (fexp w - 1))"

definition fval :: "float32 \<Rightarrow> int" where
  "fval w = (if fsign w then - fmag w else fmag w)"

text \<open>The C++ operators \<open><\<close>, \<open><=\<close>, \<open>>\<close>, \<open>>=\<close> on floats.\<close>

definition flt :: "float32 \<Rightarrow> float32 \<Rightarrow> bool" where
  "flt a b = (\<not> is_nan a \<and> \<not> is_nan b \<and> fval a < fval b)"

definition fle :: "float32 \<Rightarrow> float32 \<Rightarrow> bool" where
  "fle a b = (\<not> is_nan a \<and> \<not> is_nan b \<and> fval a \<le> fval b)"

definition fgt :: "float32 \<Rightarrow> float32 \<Rightarrow> bool" where
  "fgt a b = flt b a"

definition fge :: "float32 \<Rightarrow> float32 \<Rightarrow> bool" where
  "fge a b = fle b a"

text \<open>
  The literals of the source as floats: \<open>0.0\<close>, \<open>1.0\<close> and \<open>1000\<close> are exactly
  representable, so the conversion from \<open>double\<close> or \<open>int\<close> to \<open>float\<close> is exact.
  A comparison of a \<open>float\<close> with the \<open>double\<close> literal \<open>0.0\<close> promotes the float
  to \<open>double\<close>, which is exact and keeps NaN, so it is the float comparison with
  \<open>f_zero\<close>.
\<close>

definition f_zero :: float32 where
  "f_zero = 0x00000000"

definition f_one :: float32 where
  "f_one = 0x3F800000"

definition f_1000 :: float32 where
  "f_1000 = 0x447A0000"

section \<open>The axis controller: \<open>class Device\<close> (device.h, device.cpp)\<close>

record Device =
  homed :: bool
  limit :: float32
  currentPosition :: float32
  ratio :: float32
  accel :: float32

text \<open>\<open>Device::Device()\<close>: no parameter, no failure.\<close>

definition Device_ctor :: Device where
  "Device_ctor =
     \<lparr>homed = False, limit = f_1000, currentPosition = f_zero,
      ratio = f_one, accel = f_one\<rparr>"

text \<open>\<open>void Device::homeAxis()\<close>\<close>

definition homeAxis :: "Device \<Rightarrow> Device" where
  "homeAxis d = (d\<lparr>currentPosition := f_zero\<rparr>)\<lparr>homed := True\<rparr>"

text \<open>
  \<open>void Device::setPosition(float newPosition)\<close>: an \<open>if\<close> / \<open>else if\<close> /
  \<open>else if\<close> chain with no final \<open>else\<close>; when no condition holds the object is
  left as it is.
\<close>

definition setPosition :: "Device \<Rightarrow> float32 \<Rightarrow> Device" where
  "setPosition d newPosition =
     (if flt newPosition f_zero then d\<lparr>currentPosition := f_zero\<rparr>
      else if fle newPosition (limit d) \<and> fge newPosition f_zero
        then d\<lparr>currentPosition := newPosition\<rparr>
      else if fgt newPosition (limit d) then d\<lparr>currentPosition := limit d\<rparr>
      else d)"

text \<open>The accessors.\<close>

definition isHomed :: "Device \<Rightarrow> bool" where
  "isHomed d = homed d"

definition getPosition :: "Device \<Rightarrow> float32" where
  "getPosition d = currentPosition d"

definition getLimit :: "Device \<Rightarrow> float32" where
  "getLimit d = limit d"

text \<open>
  The invariant of the data model, \<open>0 \<le> position \<le> limit\<close>, read through the
  accessors with the float comparison.
\<close>

definition position_in_range :: "Device \<Rightarrow> bool" where
  "position_in_range d =
     (fle f_zero (getPosition d) \<and> fle (getPosition d) (getLimit d))"

text \<open>
  Sequences of the two mutating operations, for statements about every state the class
  can be in after construction. (\<open>setLimit\<close> is declared in device.h and defined
  nowhere, so it cannot be called.)
\<close>

datatype device_op = SetPosition float32 | HomeAxis

fun apply_op :: "Device \<Rightarrow> device_op \<Rightarrow> Device" where
  "apply_op d (SetPosition t) = setPosition d t"
| "apply_op d HomeAxis = homeAxis d"

fun apply_ops :: "Device \<Rightarrow> device_op list \<Rightarrow> Device" where
  "apply_ops d [] = d"
| "apply_ops d (x # xs) = apply_ops (apply_op d x) xs"

text \<open>
  The construction the specification describes, for comparison with \<open>Device_ctor\<close>: it
  takes the travel limit, rejects a negative one with \<open>InvalidConfig\<close> and otherwise
  stores it. The fields \<open>ratio\<close> and \<open>accel\<close>, which the specification does not
  mention, get the default member initialisers of device.h.
\<close>

datatype config_error = InvalidConfig

definition spec_construct :: "float32 \<Rightarrow> config_error + Device" where
  "spec_construct l =
     (if flt l f_zero then Inl InvalidConfig
      else Inr \<lparr>homed = False, limit = l, currentPosition = f_zero,
                ratio = f_one, accel = f_one\<rparr>)"

text \<open>\<open>AXIS_LIMIT\<close> of main.cpp (80) as a float, and a few more float constants.\<close>

definition f_80 :: float32 where
  "f_80 = 0x42A00000"

definition f_42 :: float32 where
  "f_42 = 0x42280000"

definition f_2000 :: float32 where
  "f_2000 = 0x44FA0000"

definition f_neg5 :: float32 where
  "f_neg5 = 0xC0A00000"

definition f_qnan :: float32 where
  "f_qnan = 0x7FC00000"

section \<open>The debounced input: \<open>struct Button\<close> (main.cpp)\<close>

text \<open>
  \<open>state\<close> is a \<open>uint16_t\<close>, \<open>lastDebounceTime\<close> a \<open>uint32_t\<close>. \<open>millis()\<close>
  returns an \<open>unsigned long\<close>, 32 bits wide on the ESP32 this firmware is written for,
  so \<open>millis() - lastDebounceTime\<close> is a subtraction modulo \<open>2^32\<close>, and the
  \<open>uint8_t\<close> constant \<open>DEBOUNCE_DELAY\<close> is widened for the comparison.
\<close>

record Button =
  pin :: "8 word"
  lastReading :: bool
  lastDebounceTime :: "32 word"
  state :: "16 word"

definition DEBOUNCE_DELAY :: "8 word" where
  "DEBOUNCE_DELAY = 10"

definition BTN_PIN :: "8 word" where
  "BTN_PIN = 22"

text \<open>
  Modelled from the spec: the macros \<open>HIGH\<close> and \<open>LOW\<close> come from Arduino.h, which
  is not among the sources. The specification calls the constructed level "high
  (inactive)" and the active level "electrically low"; converted to \<open>bool\<close>, as
  \<open>lastReading\<close> and \<open>reading\<close> are, \<open>HIGH\<close> is true and \<open>LOW\<close> is false.
\<close>

definition HIGH :: bool where
  "HIGH = True"

definition LOW :: bool where
  "LOW = False"

text \<open>The predicates \<open>pressed()\<close>, \<open>released()\<close> and \<open>held(count)\<close>. In
  \<open>state > 1 + count\<close> both sides are promoted to \<open>int\<close>, so the sum does not wrap.\<close>

definition pressed :: "Button \<Rightarrow> bool" where
  "pressed b = (state b = 1)"

definition released :: "Button \<Rightarrow> bool" where
  "released b = (state b = 0xffff)"

definition held :: "Button \<Rightarrow> 16 word \<Rightarrow> bool" where
  "held b count = (1 + uint count < uint (state b) \<and> state b < 0xffff)"

text \<open>
  \<open>void Button::read()\<close>. The method reads its environment three times: the pin once
  (\<open>reading\<close>) and the clock twice, in the timer update (\<open>t1\<close>) and in the settle
  test (\<open>t2\<close>); these are the parameters of the model.
\<close>

definition read :: "Button \<Rightarrow> bool \<Rightarrow> 32 word \<Rightarrow> 32 word \<Rightarrow> Button" where
  "read b reading t1 t2 =
     (let b1 = (if reading \<noteq> lastReading b then b\<lparr>lastDebounceTime := t1\<rparr> else b);
          b2 = (if t2 - lastDebounceTime b1 > ucast DEBOUNCE_DELAY then
                  (let pressed = (reading = LOW) in
                   if pressed then
                     (if state b1 < 0xfffe then b1\<lparr>state := state b1 + 1\<rparr>
                      else if state b1 = 0xfffe then b1\<lparr>state := 2\<rparr>
                      else b1)
                   else if state b1 \<noteq> 0 then
                     b1\<lparr>state := (if state b1 = 0xffff then 0 else 0xffff)\<rparr>
                   else b1)
                else b1)
      in b2\<lparr>lastReading := reading\<rparr>)"

text \<open>The global \<open>button = { BTN_PIN, HIGH, 0, 0 }\<close>.\<close>

definition Button_init :: Button where
  "Button_init = \<lparr>pin = BTN_PIN, lastReading = HIGH, lastDebounceTime = 0, state = 0\<rparr>"

text \<open>
  The settle test of \<open>read()\<close> as a predicate of the call: the clock value of the test
  is more than \<open>DEBOUNCE_DELAY\<close> past the timer, which the call has just restarted when
  the reading changed.
\<close>

definition settled :: "Button \<Rightarrow> bool \<Rightarrow> 32 word \<Rightarrow> 32 word \<Rightarrow> bool" where
  "settled b reading t1 t2 =
     (t2 - (if reading \<noteq> lastReading b then t1 else lastDebounceTime b)
        > ucast DEBOUNCE_DELAY)"

text \<open>
  The specification's \<open>sample(rawLevel, now)\<close> is one call of \<open>read()\<close> in which the
  pin shows \<open>rawLevel\<close> and both clock reads return \<open>now\<close>.
\<close>

definition sample :: "Button \<Rightarrow> bool \<Rightarrow> 32 word \<Rightarrow> Button" where
  "sample b rawLevel now = read b rawLevel now now"

text \<open>A sequence of samples: the state after all of them, and the states after each.\<close>

fun run_samples :: "Button \<Rightarrow> (bool \<times> 32 word) list \<Rightarrow> Button" where
  "run_samples b [] = b"
| "run_samples b ((raw, now) # xs) = run_samples (sample b raw now) xs"

fun trace :: "Button \<Rightarrow> (bool \<times> 32 word) list \<Rightarrow> Button list" where
  "trace b [] = []"
| "trace b ((raw, now) # xs) = sample b raw now # trace (sample b raw now) xs"

text \<open>
  A sequence of calls of \<open>read()\<close>, each with its reading and its two clock values:
  the state after all of them, and the states after each.
\<close>

fun run_reads :: "Button \<Rightarrow> (bool \<times> 32 word \<times> 32 word) list \<Rightarrow> Button" where
  "run_reads b [] = b"
| "run_reads b ((raw, t1, t2) # xs) = run_reads (read b raw t1 t2) xs"

fun trace_reads :: "Button \<Rightarrow> (bool \<times> 32 word \<times> 32 word) list \<Rightarrow> Button list" where
  "trace_reads b [] = []"
| "trace_reads b ((raw, t1, t2) # xs) = read b raw t1 t2 # trace_reads (read b raw t1 t2) xs"

text \<open>
  A bouncing input: \<open>bouncing lvl tc xs\<close> says, with \<open>lvl\<close> the raw level before the
  sequence and \<open>tc\<close> the clock value of its last change, that in every call of \<open>xs\<close>
  \<^item> a reading different from the one before it has its two clock values no more than
    \<open>DEBOUNCE_DELAY\<close> milliseconds apart (the settle test comes that soon after the
    timer update), and
  \<^item> a reading that repeats the one before it is either the inactive level, or is
    tested no more than \<open>DEBOUNCE_DELAY\<close> milliseconds after the last change.
  So the active level never lasts longer than the debounce delay.
\<close>

fun bouncing :: "bool \<Rightarrow> 32 word \<Rightarrow> (bool \<times> 32 word \<times> 32 word) list \<Rightarrow> bool" where
  "bouncing lvl tc [] = True"
| "bouncing lvl tc ((raw, t1, t2) # xs) =
     (if raw \<noteq> lvl then t2 - t1 \<le> ucast DEBOUNCE_DELAY \<and> bouncing raw t1 xs
      else (raw = HIGH \<or> t2 - tc \<le> ucast DEBOUNCE_DELAY) \<and> bouncing lvl tc xs)"

section \<open>Properties of the axis controller\<close>

lemma fle_refl: "\<not> is_nan a \<Longrightarrow> fle a a"
  by (simp add: fle_def)

lemma fle_trans: "fle a b \<Longrightarrow> fle b c \<Longrightarrow> fle a c"
  by (auto simp: fle_def)

lemma fle_not_nan: "fle a b \<Longrightarrow> \<not> is_nan a \<and> \<not> is_nan b"
  by (simp add: fle_def)

lemma f_zero_not_nan: "\<not> is_nan f_zero"
  by (simp add: is_nan_def f_zero_def fexp_def)

lemma fval_f_zero: "fval f_zero = 0"
  by (simp add: fval_def fmag_def f_zero_def fexp_def fmant_def)

lemma f_1000_not_nan: "\<not> is_nan f_1000"
  by (simp add: is_nan_def f_1000_def fexp_def fmant_def)

lemma fval_f_1000: "fval f_1000 = 1000 * 2 ^ 149"
  by (simp add: fval_def fmag_def f_1000_def fexp_def fmant_def fsign_def)

text \<open>
  The decoding at the corners of the format: \<open>-0.0\<close> (\<open>0x80000000\<close>) and
  \<open>+0.0\<close> compare equal, \<open>+infinity\<close> (\<open>0x7F800000\<close>) is above the largest
  finite float (\<open>0x7F7FFFFF\<close>), \<open>-infinity\<close> (\<open>0xFF800000\<close>) below the smallest,
  the smallest normal number (\<open>0x00800000\<close>) above the largest subnormal
  (\<open>0x007FFFFF\<close>), and a NaN is not even \<open>\<le>\<close> itself.
\<close>

lemma float_order_corners:
  "fle f_zero 0x80000000" "fle 0x80000000 f_zero" "\<not> flt 0x80000000 f_zero"
  "flt 0x7F7FFFFF 0x7F800000" "flt 0xFF800000 0xFF7FFFFF" "flt 0x007FFFFF 0x00800000"
  "flt f_neg5 f_zero" "flt f_42 f_80" "flt f_80 f_1000" "flt f_1000 f_2000"
  "\<not> fle f_qnan f_qnan" "is_finite f_1000" "\<not> is_finite 0x7F800000"
  by (simp_all add: flt_def fle_def is_nan_def is_finite_def fval_def fmag_def fexp_def
      fmant_def fsign_def f_zero_def f_neg5_def f_42_def f_80_def f_1000_def f_2000_def
      f_qnan_def)

lemma fle_f_zero_refl: "fle f_zero f_zero"
  by (simp add: fle_refl f_zero_not_nan)

lemma flt_imp_not_fle: "flt a b \<Longrightarrow> \<not> fle b a"
  by (auto simp: flt_def fle_def)

lemma not_nan_cases: "\<not> is_nan a \<Longrightarrow> \<not> is_nan b \<Longrightarrow> flt a b \<or> fle b a"
  by (auto simp: flt_def fle_def)

lemma setPosition_limit: "limit (setPosition d t) = limit d"
  by (simp add: setPosition_def)

lemma setPosition_homed: "homed (setPosition d t) = homed d"
  by (simp add: setPosition_def)

lemma homeAxis_limit: "limit (homeAxis d) = limit d"
  by (simp add: homeAxis_def)

lemma apply_op_limit: "limit (apply_op d x) = limit d"
  by (cases x) (simp_all add: setPosition_limit homeAxis_limit)

lemma apply_ops_limit: "limit (apply_ops d xs) = limit d"
  by (induction xs arbitrary: d) (simp_all add: apply_op_limit)

lemma apply_op_homed: "homed d \<Longrightarrow> homed (apply_op d x)"
  by (cases x) (simp_all add: setPosition_homed homeAxis_def)

lemma apply_ops_homed: "homed d \<Longrightarrow> homed (apply_ops d xs)"
  by (induction xs arbitrary: d) (simp_all add: apply_op_homed)

text \<open>Every state reachable from the constructor has the limit 1000, which is \<open>\<ge> 0\<close>.\<close>

lemma reachable_limit: "limit (apply_ops Device_ctor xs) = f_1000"
  by (simp add: apply_ops_limit Device_ctor_def)

lemma reachable_limit_nonneg: "fle f_zero (limit (apply_ops Device_ctor xs))"
  by (simp add: reachable_limit fle_def f_zero_not_nan f_1000_not_nan fval_f_zero fval_f_1000)

lemma setPosition_in_range:
  assumes "position_in_range d"
  shows "position_in_range (setPosition d t)"
proof -
  from assms have lo: "fle f_zero (currentPosition d)" and hi: "fle (currentPosition d) (limit d)"
    by (simp_all add: position_in_range_def getPosition_def getLimit_def)
  from lo hi have lim0: "fle f_zero (limit d)" by (rule fle_trans)
  from hi have limr: "fle (limit d) (limit d)" by (simp add: fle_not_nan fle_refl)
  show ?thesis
    using lo hi lim0 limr fle_f_zero_refl
    by (simp add: setPosition_def position_in_range_def getPosition_def getLimit_def fge_def)
qed

lemma homeAxis_in_range:
  assumes "position_in_range d"
  shows "position_in_range (homeAxis d)"
proof -
  from assms have "fle f_zero (limit d)"
    by (auto simp: position_in_range_def getPosition_def getLimit_def intro: fle_trans)
  then show ?thesis
    by (simp add: homeAxis_def position_in_range_def getPosition_def getLimit_def
        fle_f_zero_refl)
qed

lemma Device_ctor_in_range: "position_in_range Device_ctor"
  by (simp add: position_in_range_def getPosition_def getLimit_def Device_ctor_def
      fle_f_zero_refl fle_def f_zero_not_nan f_1000_not_nan fval_f_zero fval_f_1000)

lemma apply_ops_in_range: "position_in_range d \<Longrightarrow> position_in_range (apply_ops d xs)"
proof (induction xs arbitrary: d)
  case Nil
  then show ?case by simp
next
  case (Cons x xs)
  from Cons.prems have "position_in_range (apply_op d x)"
    by (cases x) (simp_all add: setPosition_in_range homeAxis_in_range)
  then show ?case by (simp add: Cons.IH)
qed

lemma reachable_in_range: "position_in_range (apply_ops Device_ctor xs)"
  by (rule apply_ops_in_range [OF Device_ctor_in_range])

lemma finite_not_nan: "is_finite a \<Longrightarrow> \<not> is_nan a"
  by (simp add: is_finite_def is_nan_def)

text \<open>
  C1. Starting from any state in which \<open>0 \<le> getPosition() \<le> getLimit()\<close> holds, the
  invariant holds again after \<open>setPosition(target)\<close>, for every float \<open>target\<close> (NaN
  and the infinities included), and after \<open>homeAxis()\<close>.
\<close>

theorem C1_invariant_preserved:
  "position_in_range d \<Longrightarrow>
     position_in_range (setPosition d target) \<and> position_in_range (homeAxis d)"
  by (simp add: setPosition_in_range homeAxis_in_range)

theorem C1_invariant_preserved_witness:
  "position_in_range Device_ctor \<and>
   position_in_range (setPosition Device_ctor f_2000) \<and>
   getPosition (setPosition Device_ctor f_2000) = f_1000 \<and>
   position_in_range (homeAxis Device_ctor)"
proof -
  have h: "position_in_range Device_ctor" by (rule Device_ctor_in_range)
  have p: "getPosition (setPosition Device_ctor f_2000) = f_1000"
    by (simp add: setPosition_def Device_ctor_def getPosition_def flt_def fle_def fge_def
        fgt_def is_nan_def fval_def fmag_def fexp_def fmant_def fsign_def f_zero_def
        f_1000_def f_2000_def)
  show ?thesis using h p C1_invariant_preserved [OF h, of f_2000] by simp
qed

text \<open>
  C2. \<open>setPosition(target)\<close> clamps and commits in one step. For every state whose limit
  is \<open>\<ge> 0\<close> (the data model's constraint on \<open>limit\<close>; \<open>reachable_limit_nonneg\<close>
  shows it of every state the class can reach) and every float \<open>target\<close>:
  \<open>target < 0\<close> gives position 0, \<open>0 \<le> target \<le> limit\<close> gives position
  \<open>target\<close>, \<open>target > limit\<close> gives position \<open>limit\<close>, and a target that is
  not a NaN, in particular every finite one (\<open>finite_not_nan\<close>), falls under one
  of the three cases. The
  operation has no error path: it is a total function to \<open>Device\<close>.
\<close>

theorem C2_setPosition_clamps:
  assumes "fle f_zero (getLimit d)"
  shows "(flt target f_zero \<longrightarrow> getPosition (setPosition d target) = f_zero) \<and>
         (fle f_zero target \<and> fle target (getLimit d) \<longrightarrow>
            getPosition (setPosition d target) = target) \<and>
         (fgt target (getLimit d) \<longrightarrow> getPosition (setPosition d target) = getLimit d) \<and>
         (\<not> is_nan target \<longrightarrow>
            flt target f_zero \<or> (fle f_zero target \<and> fle target (getLimit d)) \<or>
            fgt target (getLimit d))"
proof -
  from assms have l0: "fle f_zero (limit d)" by (simp add: getLimit_def)
  have c1: "flt target f_zero \<longrightarrow> getPosition (setPosition d target) = f_zero"
    by (simp add: setPosition_def getPosition_def)
  have c2: "fle f_zero target \<and> fle target (getLimit d) \<longrightarrow>
              getPosition (setPosition d target) = target"
    by (auto simp: setPosition_def getPosition_def getLimit_def fge_def
        dest: flt_imp_not_fle)
  have c3: "fgt target (getLimit d) \<longrightarrow> getPosition (setPosition d target) = getLimit d"
  proof
    assume g: "fgt target (getLimit d)"
    then have gt: "flt (limit d) target" by (simp add: fgt_def getLimit_def)
    with l0 have "\<not> flt target f_zero" by (auto simp: flt_def fle_def)
    moreover from gt have "\<not> fle target (limit d)" by (rule flt_imp_not_fle)
    ultimately show "getPosition (setPosition d target) = getLimit d"
      using gt by (simp add: setPosition_def getPosition_def getLimit_def fgt_def)
  qed
  have c4: "\<not> is_nan target \<longrightarrow>
              flt target f_zero \<or> (fle f_zero target \<and> fle target (getLimit d)) \<or>
              fgt target (getLimit d)"
    using l0 f_zero_not_nan
    by (auto simp: flt_def fle_def fgt_def getLimit_def)
  from c1 c2 c3 c4 show ?thesis by blast
qed

theorem C2_setPosition_clamps_witness:
  "fle f_zero (getLimit Device_ctor) \<and>
   flt f_neg5 f_zero \<and> getPosition (setPosition Device_ctor f_neg5) = f_zero \<and>
   fle f_zero f_42 \<and> fle f_42 (getLimit Device_ctor) \<and>
   getPosition (setPosition Device_ctor f_42) = f_42 \<and>
   fgt f_2000 (getLimit Device_ctor) \<and>
   getPosition (setPosition Device_ctor f_2000) = getLimit Device_ctor"
proof -
  have h: "fle f_zero (getLimit Device_ctor)"
    using reachable_limit_nonneg [of "[]"] by (simp add: getLimit_def)
  have a: "flt f_neg5 f_zero"
    by (simp add: flt_def is_nan_def fval_def fmag_def fexp_def fmant_def fsign_def
        f_zero_def f_neg5_def)
  have b: "fle f_zero f_42 \<and> fle f_42 (getLimit Device_ctor)"
    by (simp add: fle_def is_nan_def fval_def fmag_def fexp_def fmant_def fsign_def
        f_zero_def f_42_def f_1000_def getLimit_def Device_ctor_def)
  have c: "fgt f_2000 (getLimit Device_ctor)"
    by (simp add: fgt_def flt_def is_nan_def fval_def fmag_def fexp_def fmant_def fsign_def
        f_2000_def f_1000_def getLimit_def Device_ctor_def)
  show ?thesis
    using h a b c C2_setPosition_clamps [OF h, of f_neg5]
      C2_setPosition_clamps [OF h, of f_42] C2_setPosition_clamps [OF h, of f_2000]
    by simp
qed

text \<open>
  C9. For a NaN target all three branch conditions of \<open>setPosition\<close> are false and the
  call returns the controller as it was, every field unchanged; so the invariant
  \<open>0 \<le> position \<le> limit\<close> is kept where it held.
\<close>

theorem C9_setPosition_nan_noop:
  assumes "is_nan target"
  shows "\<not> flt target f_zero \<and>
         \<not> (fle target (limit d) \<and> fge target f_zero) \<and>
         \<not> fgt target (limit d) \<and>
         setPosition d target = d \<and>
         getPosition (setPosition d target) = getPosition d \<and>
         (position_in_range d \<longrightarrow> position_in_range (setPosition d target))"
proof -
  from assms have n: "\<not> flt target f_zero" "\<not> fle target (limit d)" "\<not> fgt target (limit d)"
    by (simp_all add: flt_def fle_def fgt_def)
  then have "setPosition d target = d" by (simp add: setPosition_def)
  with n show ?thesis by simp
qed

theorem C9_setPosition_nan_noop_witness:
  "is_nan f_qnan \<and> setPosition (setPosition Device_ctor f_42) f_qnan = setPosition Device_ctor f_42 \<and>
   getPosition (setPosition (setPosition Device_ctor f_42) f_qnan) = f_42 \<and>
   position_in_range (setPosition (setPosition Device_ctor f_42) f_qnan)"
proof -
  have h: "is_nan f_qnan"
    by (simp add: is_nan_def fexp_def fmant_def f_qnan_def)
  have p: "getPosition (setPosition Device_ctor f_42) = f_42"
    by (simp add: setPosition_def Device_ctor_def getPosition_def flt_def fle_def fge_def
        is_nan_def fval_def fmag_def fexp_def fmant_def fsign_def f_zero_def
        f_1000_def f_42_def)
  have r: "position_in_range (setPosition Device_ctor f_42)"
    by (rule setPosition_in_range [OF Device_ctor_in_range])
  show ?thesis
    using h p r C9_setPosition_nan_noop [OF h, of "setPosition Device_ctor f_42"] by simp
qed

text \<open>
  C7. \<open>homeAxis()\<close> sets the position to 0 and \<open>homed\<close> to true from every prior
  state. Its result does not depend on the prior position or the prior \<open>homed\<close> flag,
  so homing an already homed controller has the same observable effect as the first
  homing; and it is idempotent: a second call in a row changes nothing, as does any call
  on a controller that is homed and at position 0.
\<close>

theorem C7_homeAxis_idempotent:
  "getPosition (homeAxis d) = f_zero \<and>
   isHomed (homeAxis d) = True \<and>
   getLimit (homeAxis d) = getLimit d \<and>
   homeAxis (d\<lparr>currentPosition := p, homed := h\<rparr>) = homeAxis d \<and>
   homeAxis (homeAxis d) = homeAxis d \<and>
   (isHomed d \<and> getPosition d = f_zero \<longrightarrow> homeAxis d = d)"
  by (simp add: homeAxis_def getPosition_def isHomed_def getLimit_def)

theorem C7_homeAxis_idempotent_witness:
  "isHomed (homeAxis (setPosition Device_ctor f_42)) \<and>
   getPosition (homeAxis (setPosition Device_ctor f_42)) = f_zero \<and>
   homeAxis (homeAxis (setPosition Device_ctor f_42)) = homeAxis (setPosition Device_ctor f_42)"
proof -
  have h: "isHomed (homeAxis (setPosition Device_ctor f_42)) \<and>
           getPosition (homeAxis (setPosition Device_ctor f_42)) = f_zero"
    by (simp add: homeAxis_def isHomed_def getPosition_def)
  show ?thesis
    using h C7_homeAxis_idempotent [where d = "homeAxis (setPosition Device_ctor f_42)" and p = f_zero
        and h = True]
    by simp
qed

text \<open>
  C8, as the specification states it, fails on the code: the construction the
  specification describes stores the requested limit (80, main.cpp's \<open>AXIS_LIMIT\<close>, say)
  and rejects a negative one, while \<open>Device::Device()\<close> takes no limit and cannot fail;
  the Device it builds has the limit 1000 whatever limit the caller has in mind.
\<close>

theorem C8_construct_counterexample:
  "spec_construct f_80 \<noteq> Inr Device_ctor \<and>
   getLimit Device_ctor \<noteq> f_80 \<and>
   spec_construct f_neg5 = Inl InvalidConfig \<and>
   spec_construct f_neg5 \<noteq> Inr Device_ctor"
proof -
  have a: "\<not> flt f_80 f_zero"
    by (simp add: flt_def is_nan_def fval_def fmag_def fexp_def fmant_def fsign_def
        f_zero_def f_80_def)
  have b: "flt f_neg5 f_zero"
    by (simp add: flt_def is_nan_def fval_def fmag_def fexp_def fmant_def fsign_def
        f_zero_def f_neg5_def)
  have c: "f_1000 \<noteq> f_80" by (simp add: f_1000_def f_80_def)
  from a b c show ?thesis
    by (simp add: spec_construct_def Device_ctor_def getLimit_def)
qed

text \<open>
  C8 as amended. Construction takes no parameter and has no failure: it initialises the
  position to 0, \<open>homed\<close> to false and the limit to the constant 1000 (and \<open>ratio\<close>
  and \<open>accel\<close> to 1). It is the construction of the specification at the limit 1000,
  and the state it builds satisfies \<open>0 \<le> position \<le> limit\<close>.
\<close>

theorem C8_construct_amended:
  "getPosition Device_ctor = f_zero \<and>
   isHomed Device_ctor = False \<and>
   getLimit Device_ctor = f_1000 \<and>
   ratio Device_ctor = f_one \<and> accel Device_ctor = f_one \<and>
   spec_construct f_1000 = Inr Device_ctor \<and>
   fle f_zero (getLimit Device_ctor) \<and>
   position_in_range Device_ctor"
proof -
  have a: "\<not> flt f_1000 f_zero"
    by (simp add: flt_def fval_f_zero fval_f_1000)
  have b: "fle f_zero (getLimit Device_ctor)"
    using reachable_limit_nonneg [of "[]"] by (simp add: getLimit_def)
  from a b Device_ctor_in_range show ?thesis
    by (simp add: spec_construct_def Device_ctor_def getLimit_def getPosition_def
        isHomed_def)
qed

text \<open>
  C10. Frame conditions. \<open>setPosition\<close> changes at most \<open>currentPosition\<close>:
  \<open>homed\<close>, \<open>limit\<close>, \<open>ratio\<close> and \<open>accel\<close> are as before, for every input.
  \<open>homeAxis\<close> changes at most \<open>currentPosition\<close> and \<open>homed\<close>. Hence after any
  sequence of the two operations the limit is the one the sequence started with, and a
  controller that was homed is still homed.
\<close>

theorem C10_frame:
  "homed (setPosition d t) = homed d \<and>
   limit (setPosition d t) = limit d \<and>
   ratio (setPosition d t) = ratio d \<and>
   accel (setPosition d t) = accel d \<and>
   limit (homeAxis d) = limit d \<and>
   ratio (homeAxis d) = ratio d \<and>
   accel (homeAxis d) = accel d \<and>
   getLimit (apply_ops d ops) = getLimit d \<and>
   (isHomed d \<longrightarrow> isHomed (apply_ops d ops))"
proof -
  have "ratio (setPosition d t) = ratio d" "accel (setPosition d t) = accel d"
    by (simp_all add: setPosition_def)
  moreover have "ratio (homeAxis d) = ratio d" "accel (homeAxis d) = accel d"
    by (simp_all add: homeAxis_def)
  ultimately show ?thesis
    by (simp add: setPosition_homed setPosition_limit homeAxis_limit apply_ops_limit
        apply_ops_homed getLimit_def isHomed_def)
qed

theorem C10_frame_witness:
  "isHomed (homeAxis Device_ctor) \<and>
   isHomed (apply_ops (homeAxis Device_ctor) [SetPosition f_42, SetPosition f_qnan, HomeAxis,
      SetPosition f_neg5]) \<and>
   getLimit (apply_ops (homeAxis Device_ctor) [SetPosition f_42, SetPosition f_qnan, HomeAxis,
      SetPosition f_neg5]) = f_1000"
proof -
  have h: "isHomed (homeAxis Device_ctor)" by (simp add: isHomed_def homeAxis_def)
  have l: "getLimit (homeAxis Device_ctor) = f_1000"
    by (simp add: getLimit_def homeAxis_def Device_ctor_def)
  show ?thesis
    using h l C10_frame [of "homeAxis Device_ctor" f_zero
        "[SetPosition f_42, SetPosition f_qnan, HomeAxis, SetPosition f_neg5]"]
    by simp
qed

section \<open>Properties of the debounced input\<close>

lemma read_lastReading: "lastReading (read b reading t1 t2) = reading"
  by (simp add: read_def Let_def)

lemma read_lastDebounceTime:
  "lastDebounceTime (read b reading t1 t2) =
     (if reading \<noteq> lastReading b then t1 else lastDebounceTime b)"
  by (simp add: read_def Let_def)

text \<open>A call that fails the settle test only records the reading and the timer.\<close>

lemma read_unsettled:
  "\<not> settled b reading t1 t2 \<Longrightarrow>
   read b reading t1 t2 =
     b\<lparr>lastDebounceTime := (if reading \<noteq> lastReading b then t1 else lastDebounceTime b),
       lastReading := reading\<rparr>"
  by (cases "reading = lastReading b") (simp_all add: read_def settled_def Let_def)

lemma read_unsettled_state: "\<not> settled b reading t1 t2 \<Longrightarrow> state (read b reading t1 t2) = state b"
  by (simp add: read_unsettled)

text \<open>A call that passes the settle test moves \<open>state\<close> as the inner \<open>if\<close> says.\<close>

lemma read_settled_state:
  "settled b reading t1 t2 \<Longrightarrow>
   state (read b reading t1 t2) =
     (if reading = LOW then
        (if state b < 0xfffe then state b + 1 else if state b = 0xfffe then 2 else state b)
      else if state b \<noteq> 0 then (if state b = 0xffff then 0 else 0xffff) else state b)"
  by (cases "reading = lastReading b") (simp_all add: read_def settled_def Let_def)

text \<open>With one clock value for the whole call, a changed reading is never settled.\<close>

lemma settled_same_clock:
  "settled b raw now now \<longleftrightarrow>
     (raw = lastReading b \<and> now - lastDebounceTime b > ucast DEBOUNCE_DELAY)"
  by (simp add: settled_def DEBOUNCE_DELAY_def)

lemma inc_no_wrap:
  assumes "(s :: 16 word) < 0xfffe"
  shows "unat (s + 1) = unat s + 1" and "s + 1 \<le> 0xfffe" and "s + 1 \<noteq> 0"
proof -
  from assms have u: "unat s < 65534" by (simp add: word_less_nat_alt)
  then show a: "unat (s + 1) = unat s + 1" by (simp add: unat_word_ariths)
  from a u show "s + 1 \<le> 0xfffe" by (simp add: word_le_nat_alt)
  from a show "s + 1 \<noteq> 0" by (metis Suc_eq_plus1 nat.distinct(1) unat_0)
qed

text \<open>
  C6. In every call of \<open>read()\<close> whose reading differs from \<open>lastReading\<close>, the timer
  \<open>lastDebounceTime\<close> becomes the clock value read in the timer update, whatever the
  time since the last change; and \<open>lastReading\<close> becomes the reading in every call. For
  \<open>sample(rawLevel, now)\<close> the clock value is \<open>now\<close>.
\<close>

theorem C6_timer_restart:
  "(reading \<noteq> lastReading b \<longrightarrow> lastDebounceTime (read b reading t1 t2) = t1) \<and>
   lastReading (read b reading t1 t2) = reading \<and>
   (rawLevel \<noteq> lastReading b \<longrightarrow> lastDebounceTime (sample b rawLevel now) = now) \<and>
   lastReading (sample b rawLevel now) = rawLevel"
  by (simp add: sample_def read_lastReading read_lastDebounceTime)

theorem C6_timer_restart_witness:
  "LOW \<noteq> lastReading Button_init \<and>
   lastDebounceTime (read Button_init LOW 5000 5001) = 5000 \<and>
   lastDebounceTime (sample Button_init LOW 5) = 5 \<and>
   lastReading (sample Button_init LOW 5) = LOW"
proof -
  have h: "LOW \<noteq> lastReading Button_init"
    by (simp add: Button_init_def LOW_def HIGH_def)
  show ?thesis
    using h C6_timer_restart [of LOW Button_init 5000 5001 LOW 5] by simp
qed

text \<open>
  C3, as the specification states it, fails on the code: the reset to 2 is not tied to the
  released sentinel \<open>0xffff\<close>. The button is pressed, released, and pressed again on
  the sample right after the release edge; when that press has settled, \<open>state\<close> is
  the sentinel, the read is settled and active, and \<open>state\<close> is still the sentinel
  afterwards, not 2. The reset to 2 is what a settled active read does at \<open>0xfffe\<close>.
\<close>

theorem C3_sentinel_counterexample:
  "released (run_samples Button_init
      [(LOW, 100), (LOW, 120), (HIGH, 130), (HIGH, 150), (LOW, 151)]) \<and>
   settled (run_samples Button_init
      [(LOW, 100), (LOW, 120), (HIGH, 130), (HIGH, 150), (LOW, 151)]) LOW 170 170 \<and>
   state (sample (run_samples Button_init
      [(LOW, 100), (LOW, 120), (HIGH, 130), (HIGH, 150), (LOW, 151)]) LOW 170) = 0xffff \<and>
   state (sample (run_samples Button_init
      [(LOW, 100), (LOW, 120), (HIGH, 130), (HIGH, 150), (LOW, 151)]) LOW 170) \<noteq> 2 \<and>
   state (sample \<lparr>pin = BTN_PIN, lastReading = LOW, lastDebounceTime = 100, state = 0xfffe\<rparr>
      LOW 70000) = 2"
  by (simp add: sample_def read_def Let_def Button_init_def HIGH_def LOW_def
      DEBOUNCE_DELAY_def settled_def released_def)

text \<open>
  C3 as amended. When the signal is settled and read as active, \<open>state\<close> is incremented
  while \<open>state < 0xfffe\<close>; the increment does not overflow, the result is at most
  \<open>0xfffe\<close>, one below the released sentinel. When \<open>state\<close> has reached \<open>0xfffe\<close>,
  the top of the held range, it is reset to 2: a long hold starts a new held run and
  produces no just-pressed edge.
\<close>

theorem C3_settled_active_amended:
  assumes "settled b LOW t1 t2"
  shows "(state b < 0xfffe \<longrightarrow>
            state (read b LOW t1 t2) = state b + 1 \<and>
            unat (state (read b LOW t1 t2)) = unat (state b) + 1 \<and>
            state (read b LOW t1 t2) \<le> 0xfffe) \<and>
         (state b = 0xfffe \<longrightarrow>
            state (read b LOW t1 t2) = 2 \<and> held (read b LOW t1 t2) 0 \<and>
            \<not> pressed (read b LOW t1 t2))"
proof -
  have s: "state (read b LOW t1 t2) =
      (if state b < 0xfffe then state b + 1 else if state b = 0xfffe then 2 else state b)"
    using read_settled_state [OF assms] by simp
  have a: "state b < 0xfffe \<longrightarrow>
            state (read b LOW t1 t2) = state b + 1 \<and>
            unat (state (read b LOW t1 t2)) = unat (state b) + 1 \<and>
            state (read b LOW t1 t2) \<le> 0xfffe"
    using s by (simp add: inc_no_wrap)
  have c: "state b = 0xfffe \<longrightarrow>
            state (read b LOW t1 t2) = 2 \<and> held (read b LOW t1 t2) 0 \<and>
            \<not> pressed (read b LOW t1 t2)"
    using s by (simp add: held_def pressed_def)
  from a c show ?thesis by blast
qed

theorem C3_settled_active_amended_witness:
  "settled (sample Button_init LOW 100) LOW 120 120 \<and>
   state (sample Button_init LOW 100) < 0xfffe \<and>
   state (read (sample Button_init LOW 100) LOW 120 120) = 1 \<and>
   settled \<lparr>pin = BTN_PIN, lastReading = LOW, lastDebounceTime = 100, state = 0xfffe\<rparr>
      LOW 70000 70000 \<and>
   state (read \<lparr>pin = BTN_PIN, lastReading = LOW, lastDebounceTime = 100, state = 0xfffe\<rparr>
      LOW 70000 70000) = 2"
proof -
  have h1: "settled (sample Button_init LOW 100) LOW 120 120"
    by (simp add: settled_def sample_def read_def Let_def Button_init_def HIGH_def LOW_def
        DEBOUNCE_DELAY_def)
  have h2: "settled \<lparr>pin = BTN_PIN, lastReading = LOW, lastDebounceTime = 100,
      state = 0xfffe\<rparr> LOW 70000 70000"
    by (simp add: settled_def DEBOUNCE_DELAY_def)
  have s: "state (sample Button_init LOW 100) = 0"
    by (simp add: sample_def read_def Let_def Button_init_def HIGH_def LOW_def
        DEBOUNCE_DELAY_def)
  show ?thesis
    using h1 h2 s C3_settled_active_amended [OF h1] C3_settled_active_amended [OF h2]
    by simp
qed

text \<open>
  C4, as the specification states it, fails on the code: an edge state can last more than
  one sample. A press settles (\<open>pressed()\<close> is true); on the next sample the contact
  bounces to high, the timer restarts, the settle test fails and \<open>state\<close> is still 1.
  Likewise, \<open>released()\<close> is true on the sample that settles the release and on the
  next one, which shows the button pressed again.
\<close>

theorem C4_edges_counterexample:
  "pressed (run_samples Button_init [(LOW, 100), (LOW, 120)]) \<and>
   pressed (run_samples Button_init [(LOW, 100), (LOW, 120), (HIGH, 130)]) \<and>
   released (run_samples Button_init [(LOW, 100), (LOW, 120), (HIGH, 130), (HIGH, 150)]) \<and>
   released (run_samples Button_init
      [(LOW, 100), (LOW, 120), (HIGH, 130), (HIGH, 150), (LOW, 151)])"
  by (simp add: sample_def read_def Let_def Button_init_def HIGH_def LOW_def
      DEBOUNCE_DELAY_def pressed_def released_def)

text \<open>
  C4 as amended. \<open>state\<close> moves only in a call that passes the settle test. From the
  just-pressed state 1, the next settled call leaves it, whatever the level it reads;
  from the released sentinel, the next settled call that reads the inactive level leaves
  it, for 0. A call that is not settled leaves \<open>state\<close> as it is, so \<open>pressed()\<close> or
  \<open>released()\<close> stays true until then; and a \<open>sample(rawLevel, now)\<close> is settled
  only if \<open>rawLevel\<close> is the level of the previous sample and \<open>now\<close> is more than
  \<open>DEBOUNCE_DELAY\<close> past the last change.
\<close>

theorem C4_edges_amended:
  "(pressed b \<and> settled b raw t1 t2 \<longrightarrow> \<not> pressed (read b raw t1 t2)) \<and>
   (released b \<and> settled b raw t1 t2 \<and> raw = HIGH \<longrightarrow>
      state (read b raw t1 t2) = 0 \<and> \<not> released (read b raw t1 t2)) \<and>
   (\<not> settled b raw t1 t2 \<longrightarrow>
      state (read b raw t1 t2) = state b \<and>
      pressed (read b raw t1 t2) = pressed b \<and>
      released (read b raw t1 t2) = released b) \<and>
   (settled b raw now now \<longleftrightarrow>
      raw = lastReading b \<and> now - lastDebounceTime b > ucast DEBOUNCE_DELAY)"
proof -
  have a: "pressed b \<and> settled b raw t1 t2 \<longrightarrow> \<not> pressed (read b raw t1 t2)"
    by (simp add: pressed_def read_settled_state)
  have c: "released b \<and> settled b raw t1 t2 \<and> raw = HIGH \<longrightarrow>
      state (read b raw t1 t2) = 0 \<and> \<not> released (read b raw t1 t2)"
  proof
    assume h: "released b \<and> settled b raw t1 t2 \<and> raw = HIGH"
    then have r: "raw = HIGH" and st: "settled b raw t1 t2" and "released b"
      by blast+
    then have rel: "state b = 0xffff" by (simp add: released_def)
    from st have "settled b HIGH t1 t2" unfolding r .
    from read_settled_state [OF this] rel
    have "state (read b HIGH t1 t2) = 0" by (simp add: HIGH_def LOW_def)
    then show "state (read b raw t1 t2) = 0 \<and> \<not> released (read b raw t1 t2)"
      unfolding r by (simp add: released_def)
  qed
  have d: "\<not> settled b raw t1 t2 \<longrightarrow>
      state (read b raw t1 t2) = state b \<and>
      pressed (read b raw t1 t2) = pressed b \<and>
      released (read b raw t1 t2) = released b"
    by (simp add: read_unsettled_state pressed_def released_def)
  from a c d settled_same_clock [of b raw now] show ?thesis by blast
qed

theorem C4_edges_amended_witness:
  "pressed (run_samples Button_init [(LOW, 100), (LOW, 120)]) \<and>
   settled (run_samples Button_init [(LOW, 100), (LOW, 120)]) LOW 140 140 \<and>
   \<not> pressed (read (run_samples Button_init [(LOW, 100), (LOW, 120)]) LOW 140 140) \<and>
   released (run_samples Button_init [(LOW, 100), (LOW, 120), (HIGH, 130), (HIGH, 150)]) \<and>
   settled (run_samples Button_init [(LOW, 100), (LOW, 120), (HIGH, 130), (HIGH, 150)])
      HIGH 151 151 \<and>
   state (read (run_samples Button_init [(LOW, 100), (LOW, 120), (HIGH, 130), (HIGH, 150)])
      HIGH 151 151) = 0 \<and>
   \<not> settled (run_samples Button_init [(LOW, 100), (LOW, 120)]) HIGH 130 130 \<and>
   pressed (read (run_samples Button_init [(LOW, 100), (LOW, 120)]) HIGH 130 130)"
proof -
  have p: "pressed (run_samples Button_init [(LOW, 100), (LOW, 120)])"
    by (simp add: sample_def read_def Let_def Button_init_def HIGH_def LOW_def
        DEBOUNCE_DELAY_def pressed_def)
  have ps: "settled (run_samples Button_init [(LOW, 100), (LOW, 120)]) LOW 140 140"
    by (simp add: sample_def read_def Let_def Button_init_def HIGH_def LOW_def
        DEBOUNCE_DELAY_def settled_def)
  have pu: "\<not> settled (run_samples Button_init [(LOW, 100), (LOW, 120)]) HIGH 130 130"
    by (simp add: sample_def read_def Let_def Button_init_def HIGH_def LOW_def
        DEBOUNCE_DELAY_def settled_def)
  have r: "released (run_samples Button_init
      [(LOW, 100), (LOW, 120), (HIGH, 130), (HIGH, 150)])"
    by (simp add: sample_def read_def Let_def Button_init_def HIGH_def LOW_def
        DEBOUNCE_DELAY_def released_def)
  have rs: "settled (run_samples Button_init
      [(LOW, 100), (LOW, 120), (HIGH, 130), (HIGH, 150)]) HIGH 151 151"
    by (simp add: sample_def read_def Let_def Button_init_def HIGH_def LOW_def
        DEBOUNCE_DELAY_def settled_def)
  show ?thesis
    using p ps pu r rs
      C4_edges_amended [of "run_samples Button_init [(LOW, 100), (LOW, 120)]" LOW 140 140 0]
      C4_edges_amended [of "run_samples Button_init [(LOW, 100), (LOW, 120)]" HIGH 130 130 0]
      C4_edges_amended [of "run_samples Button_init
        [(LOW, 100), (LOW, 120), (HIGH, 130), (HIGH, 150)]" HIGH 151 151 0]
    by blast
qed

text \<open>
  In a bouncing sequence the only calls that pass the settle test read the inactive
  level, so a \<open>state\<close> of 0 never moves.
\<close>

lemma bouncing_step:
  assumes "state b = 0"
    and "bouncing (lastReading b) (lastDebounceTime b) ((raw, t1, t2) # xs)"
  shows "state (read b raw t1 t2) = 0"
    and "bouncing (lastReading (read b raw t1 t2)) (lastDebounceTime (read b raw t1 t2)) xs"
proof -
  show "state (read b raw t1 t2) = 0"
  proof (cases "settled b raw t1 t2")
    case True
    have same: "raw = lastReading b"
    proof (rule ccontr)
      assume c: "raw \<noteq> lastReading b"
      with assms(2) have "t2 - t1 \<le> ucast DEBOUNCE_DELAY" by simp
      moreover from True c have "t2 - t1 > ucast DEBOUNCE_DELAY" by (simp add: settled_def)
      ultimately show False by (simp add: not_le)
    qed
    with True have late: "t2 - lastDebounceTime b > ucast DEBOUNCE_DELAY"
      by (simp add: settled_def)
    from assms(2) same have "raw = HIGH \<or> t2 - lastDebounceTime b \<le> ucast DEBOUNCE_DELAY"
      by simp
    with late have "raw = HIGH" by (auto simp: not_le)
    then have "raw \<noteq> LOW" by (simp add: HIGH_def LOW_def)
    with read_settled_state [OF True] assms(1) show ?thesis by simp
  next
    case False
    with assms(1) show ?thesis by (simp add: read_unsettled_state)
  qed
  from assms(2) show
    "bouncing (lastReading (read b raw t1 t2)) (lastDebounceTime (read b raw t1 t2)) xs"
    by (cases "raw = lastReading b") (simp_all add: read_lastReading read_lastDebounceTime)
qed

lemma bouncing_keeps_state:
  "state b = 0 \<Longrightarrow> bouncing (lastReading b) (lastDebounceTime b) xs \<Longrightarrow>
   state (run_reads b xs) = 0 \<and> (\<forall>b' \<in> set (trace_reads b xs). state b' = 0)"
proof (induction xs arbitrary: b)
  case Nil
  then show ?case by simp
next
  case (Cons x xs)
  obtain raw t1 t2 where x: "x = (raw, t1, t2)" by (cases x)
  from Cons.prems have st: "state (read b raw t1 t2) = 0"
    and bo: "bouncing (lastReading (read b raw t1 t2)) (lastDebounceTime (read b raw t1 t2)) xs"
    unfolding x by (rule bouncing_step)+
  from Cons.IH [OF st bo] st show ?case by (simp add: x)
qed

text \<open>
  C5, as the specification states it, fails on the code: raw changes that follow each
  other within the debounce delay can still produce a press edge, because \<open>read()\<close>
  reads the clock twice and the settle test compares the second value with the timer the
  first one has just set. From the constructed button, one call that reads the active
  level with the clock at 5000 in the timer update and at 5011 in the settle test leaves
  \<open>state\<close> at 1; so does the third of three calls whose readings change every 3
  milliseconds, when its second clock value is 11 milliseconds after its first.
\<close>

theorem C5_bounce_counterexample:
  "pressed (read Button_init LOW 5000 5011) \<and>
   state (run_reads Button_init
     [(LOW, 5000, 5000), (HIGH, 5003, 5003), (LOW, 5006, 5017)]) = 1 \<and>
   pressed (run_reads Button_init
     [(LOW, 5000, 5000), (HIGH, 5003, 5003), (LOW, 5006, 5017)])"
  by (simp add: read_def Let_def Button_init_def HIGH_def LOW_def DEBOUNCE_DELAY_def
      pressed_def)

text \<open>
  C5 as amended. Starting from the constructed button, a bouncing sequence of calls of
  \<open>read()\<close> never produces an edge, provided that in every call that reads a changed
  raw level the clock value of the settle test is at most \<open>DEBOUNCE_DELAY\<close>
  milliseconds after the one of the timer update, and that every call that repeats the
  previous level either reads the inactive level or comes at most \<open>DEBOUNCE_DELAY\<close>
  milliseconds after the last raw change. Rapidly alternating levels are the case in which
  every call reads a change. After each call \<open>state\<close> is 0, and \<open>pressed()\<close> and
  \<open>released()\<close> are false.
\<close>

theorem C5_bounce_absorbed_amended:
  assumes "bouncing HIGH 0 xs"
  shows "(\<forall>b \<in> set (trace_reads Button_init xs).
            state b = 0 \<and> \<not> pressed b \<and> \<not> released b) \<and>
         state (run_reads Button_init xs) = 0"
proof -
  have s: "state Button_init = 0" by (simp add: Button_init_def)
  from assms
  have "bouncing (lastReading Button_init) (lastDebounceTime Button_init) xs"
    by (simp add: Button_init_def)
  from bouncing_keeps_state [OF s this] show ?thesis
    by (simp add: pressed_def released_def)
qed

theorem C5_bounce_absorbed_amended_witness:
  "bouncing HIGH 0
     [(HIGH, 5000, 5000), (LOW, 5003, 5004), (HIGH, 5006, 5016), (LOW, 5009, 5009),
      (LOW, 5012, 5013), (LOW, 5018, 5019), (HIGH, 5020, 5021), (LOW, 5030, 5030),
      (HIGH, 5040, 5041), (HIGH, 5060, 5061)] \<and>
   map state (trace_reads Button_init
     [(HIGH, 5000, 5000), (LOW, 5003, 5004), (HIGH, 5006, 5016), (LOW, 5009, 5009),
      (LOW, 5012, 5013), (LOW, 5018, 5019), (HIGH, 5020, 5021), (LOW, 5030, 5030),
      (HIGH, 5040, 5041), (HIGH, 5060, 5061)]) =
     [0, 0, 0, 0, 0, 0, 0, 0, 0, 0] \<and>
   state (run_reads Button_init
     [(HIGH, 5000, 5000), (LOW, 5003, 5004), (HIGH, 5006, 5016), (LOW, 5009, 5009),
      (LOW, 5012, 5013), (LOW, 5018, 5019), (HIGH, 5020, 5021), (LOW, 5030, 5030),
      (HIGH, 5040, 5041), (HIGH, 5060, 5061)]) = 0"
proof -
  have h: "bouncing HIGH 0
     [(HIGH, 5000, 5000), (LOW, 5003, 5004), (HIGH, 5006, 5016), (LOW, 5009, 5009),
      (LOW, 5012, 5013), (LOW, 5018, 5019), (HIGH, 5020, 5021), (LOW, 5030, 5030),
      (HIGH, 5040, 5041), (HIGH, 5060, 5061)]"
    by (simp add: HIGH_def LOW_def DEBOUNCE_DELAY_def)
  show ?thesis
    using h C5_bounce_absorbed_amended [OF h] by simp
qed

end
